theory Spec2Isabelle
  imports Complex_Main "HOL-Library.AList"
begin

section \<open>Service Catalog tools of the ServiceNow MCP server\<close>

text \<open>
  A shallow embedding of \<^verbatim>\<open>src/servicenow_mcp/tools/catalog_tools.py\<close>.
  The module talks to a remote ServiceNow instance through the \<^verbatim>\<open>requests\<close> library.
  The library and the remote instance are not part of the module: they appear here as a
  transport, a parameter of every operation, that answers each request and may change
  its own state while doing so. Every request an operation issues is recorded, in order.
\<close>

subsection \<open>JSON values as Python sees them\<close>

text \<open>
  \<^verbatim>\<open>response.json()\<close> yields Python values: \<^verbatim>\<open>None\<close>, booleans, integers, floats,
  strings, lists and dictionaries with string keys. A dictionary is an association list
  (insertion order kept, keys distinct); a lookup reads the first entry of a key.
\<close>

datatype json =
    JNull
  | JBool bool
  | JInt int
  | JFloat rat
  | JStr string
  | JArr "json list"
  | JObj "(string \<times> json) list"

type_synonym dict = "(string \<times> json) list"

text \<open>The exceptions that the module raises, catches or lets through.\<close>

datatype exn =
    RequestException string   \<comment> \<open>\<^verbatim>\<open>requests.exceptions.RequestException\<close>, with \<^verbatim>\<open>str(e)\<close>\<close>
  | RuntimeError string
  | AttributeError
  | TypeError
  | KeyError
  | IndexError

text \<open>Python's truth value of a JSON value, as \<^verbatim>\<open>if x\<close>, \<^verbatim>\<open>not x\<close> and \<^verbatim>\<open>x or y\<close> test it.\<close>

fun truthy :: "json \<Rightarrow> bool" where
  "truthy JNull = False"
| "truthy (JBool b) = b"
| "truthy (JInt n) = (n \<noteq> 0)"
| "truthy (JFloat r) = (r \<noteq> 0)"
| "truthy (JStr s) = (s \<noteq> [])"
| "truthy (JArr xs) = (xs \<noteq> [])"
| "truthy (JObj kvs) = (kvs \<noteq> [])"

text \<open>\<^verbatim>\<open>a or b\<close>: the first operand when it is truthy, the second otherwise.\<close>

definition py_or :: "json \<Rightarrow> json \<Rightarrow> json" where
  "py_or a b = (if truthy a then a else b)"

text \<open>\<^verbatim>\<open>d.get(k, default)\<close> on a dictionary; \<^verbatim>\<open>d.get(k)\<close> has the default \<^verbatim>\<open>None\<close>.\<close>

definition dict_get :: "dict \<Rightarrow> string \<Rightarrow> json \<Rightarrow> json" where
  "dict_get d k dflt = (case map_of d k of Some v \<Rightarrow> v | None \<Rightarrow> dflt)"

text \<open>
  \<^verbatim>\<open>x.get(k, default)\<close> on any parsed value: only a dictionary has the method, every
  other value raises \<^verbatim>\<open>AttributeError\<close>.
\<close>

fun py_get :: "json \<Rightarrow> string \<Rightarrow> json \<Rightarrow> exn + json" where
  "py_get (JObj d) k dflt = Inr (dict_get d k dflt)"
| "py_get _ k dflt = Inl AttributeError"

text \<open>
  \<^verbatim>\<open>x[0]\<close> on a parsed value: the first element of a list, the first character of a
  string, \<^verbatim>\<open>KeyError\<close> on a dictionary (its keys are strings), \<^verbatim>\<open>TypeError\<close> on
  a value that cannot be subscripted.
\<close>

fun py_index0 :: "json \<Rightarrow> exn + json" where
  "py_index0 (JArr []) = Inl IndexError"
| "py_index0 (JArr (x # xs)) = Inr x"
| "py_index0 (JStr []) = Inl IndexError"
| "py_index0 (JStr (c # cs)) = Inr (JStr [c])"
| "py_index0 (JObj d) = Inl KeyError"
| "py_index0 _ = Inl TypeError"

text \<open>
  Iterating a parsed value in a \<^verbatim>\<open>for\<close> loop: the elements of a list, the keys of a
  dictionary, the characters of a string; anything else raises \<^verbatim>\<open>TypeError\<close>.
\<close>

fun py_iter :: "json \<Rightarrow> exn + json list" where
  "py_iter (JArr xs) = Inr xs"
| "py_iter (JObj d) = Inr (map (\<lambda>kv. JStr (fst kv)) d)"
| "py_iter (JStr s) = Inr (map (\<lambda>c. JStr [c]) s)"
| "py_iter _ = Inl TypeError"

text \<open>\<^verbatim>\<open>sep.join(xs)\<close> on a list of strings.\<close>

fun py_join :: "string \<Rightarrow> string list \<Rightarrow> string" where
  "py_join sep [] = []"
| "py_join sep [x] = x"
| "py_join sep (x # y # ys) = x @ sep @ py_join sep (y # ys)"

subsection \<open>The transport\<close>

datatype http_verb = GET | POST | PATCH

record request =
  verb :: http_verb
  url :: string
  headers :: "(string \<times> string) list"
  query_params :: "dict option"
  json_body :: "dict option"

text \<open>
  What one call yields, seen from the module:
  \<^item> \<open>TransportError e\<close>: \<^verbatim>\<open>requests.get/post/patch\<close> or \<^verbatim>\<open>raise_for_status()\<close> raised a
    \<^verbatim>\<open>RequestException\<close> (connection error, non-2xx status) whose text is \<open>e\<close>;
  \<^item> \<open>BadBody e\<close>: the status was fine, and the body is not JSON, so that \<^verbatim>\<open>.json()\<close>
    raises \<^verbatim>\<open>requests.exceptions.JSONDecodeError\<close>, a \<^verbatim>\<open>RequestException\<close>;
  \<^item> \<open>Body j\<close>: the status was fine and \<^verbatim>\<open>.json()\<close> returns \<open>j\<close>.
\<close>

datatype response = TransportError string | BadBody string | Body json

type_synonym 'w transport = "request \<Rightarrow> 'w \<Rightarrow> response \<times> 'w"

record 'w net =
  world :: 'w
  sent :: "request list"

text \<open>Issue one request: the transport answers it, and the request is recorded.\<close>

definition call :: "'w transport \<Rightarrow> request \<Rightarrow> 'w net \<Rightarrow> response \<times> 'w net" where
  "call tr rq s =
     (case tr rq (world s) of
        (resp, w') \<Rightarrow> (resp, s\<lparr>world := w', sent := sent s @ [rq]\<rparr>))"

text \<open>\<^verbatim>\<open>response.raise_for_status()\<close> followed by \<^verbatim>\<open>response.json()\<close>.\<close>

fun checked_json :: "response \<Rightarrow> exn + json" where
  "checked_json (TransportError e) = Inl (RequestException e)"
| "checked_json (BadBody e) = Inl (RequestException e)"
| "checked_json (Body j) = Inr j"

text \<open>
  \<^verbatim>\<open>headers = auth_manager.get_headers()\<close> followed by the assignments of \<^verbatim>\<open>Accept\<close>
  and, in the operations that send a body, of \<^verbatim>\<open>Content-Type\<close>.
\<close>

definition read_headers :: "(string \<times> string) list \<Rightarrow> (string \<times> string) list" where
  "read_headers auth_headers = AList.update ''Accept'' ''application/json'' auth_headers"

definition write_headers :: "(string \<times> string) list \<Rightarrow> (string \<times> string) list" where
  "write_headers auth_headers =
     AList.update ''Content-Type'' ''application/json''
       (AList.update ''Accept'' ''application/json'' auth_headers)"

subsection \<open>Parameters and outcome\<close>

text \<open>
  The pydantic models of the module, in the order of the source. Two of them have a field
  \<^verbatim>\<open>item_id\<close>; the definitions below name the record with the field where needed.
\<close>

record ListCatalogItemsParams =
  limit :: int
  offset :: int
  category :: "string option"
  query :: "string option"
  active :: bool

record GetCatalogItemParams =
  item_id :: string

record CatalogResponse =
  success :: bool
  message :: string
  data :: "dict option"

record MoveCatalogItemsParams =
  item_ids :: "string list"
  target_category_id :: string

record SubmitCatalogRequestParams =
  item_id :: string
  variables :: "dict option"

text \<open>
  The handler \<^verbatim>\<open>except requests.exceptions.RequestException as e\<close> that closes
  \<^verbatim>\<open>get_catalog_item\<close> and \<^verbatim>\<open>submit_catalog_request\<close>: a \<^verbatim>\<open>RequestException\<close>
  becomes a failed outcome whose message carries \<^verbatim>\<open>str(e)\<close>; every other exception
  leaves the function.
\<close>

fun except_RequestException :: "string \<Rightarrow> exn + CatalogResponse \<Rightarrow> exn + CatalogResponse" where
  "except_RequestException prefix (Inl (RequestException e)) =
     Inr \<lparr>success = False, message = prefix @ e, data = None\<rparr>"
| "except_RequestException prefix r = r"

subsection \<open>\<^verbatim>\<open>list_catalog_items\<close>\<close>

text \<open>Lines 118 to 124: the filters, in the order the source appends them.\<close>

definition list_filters :: "ListCatalogItemsParams \<Rightarrow> string list" where
  "list_filters params =
     (if active params then [''active=true''] else [])
     @ (case category params of
          Some c \<Rightarrow> if c \<noteq> [] then [''category='' @ c] else []
        | None \<Rightarrow> [])
     @ (case query params of
          Some q \<Rightarrow> if q \<noteq> [] then [''short_descriptionLIKE'' @ q @ ''^ORnameLIKE'' @ q] else []
        | None \<Rightarrow> [])"

text \<open>Lines 110 to 127: the query parameters.\<close>

definition list_query_params :: "ListCatalogItemsParams \<Rightarrow> dict" where
  "list_query_params params =
     [(''sysparm_limit'', JInt (limit params)),
      (''sysparm_offset'', JInt (offset params)),
      (''sysparm_display_value'', JStr ''true''),
      (''sysparm_exclude_reference_link'', JStr ''true'')]
     @ (if list_filters params \<noteq> []
        then [(''sysparm_query'', JStr (py_join ''^'' (list_filters params)))]
        else [])"

text \<open>Lines 107 and 130 to 134: the one \<^verbatim>\<open>GET\<close> of the operation.\<close>

definition list_request :: "string \<Rightarrow> (string \<times> string) list \<Rightarrow> ListCatalogItemsParams \<Rightarrow> request" where
  "list_request instance_url auth_headers params =
     \<lparr>verb = GET, url = instance_url @ ''/api/now/table/sc_cat_item'',
      headers = read_headers auth_headers,
      query_params = Some (list_query_params params), json_body = None\<rparr>"

text \<open>Lines 144 to 153: the dictionary built from one item of the payload.\<close>

definition list_item_fields :: "dict \<Rightarrow> dict" where
  "list_item_fields item =
     [(''sys_id'', dict_get item ''sys_id'' (JStr '''')),
      (''name'', dict_get item ''name'' (JStr '''')),
      (''short_description'', dict_get item ''short_description'' (JStr '''')),
      (''category'', dict_get item ''category'' (JStr '''')),
      (''price'', dict_get item ''price'' (JStr '''')),
      (''picture'', dict_get item ''picture'' (JStr '''')),
      (''active'', dict_get item ''active'' (JStr '''')),
      (''order'', dict_get item ''order'' (JStr ''''))]"

text \<open>
  Lines 142 to 153: the loop over the items. An item that is not a dictionary has no
  \<^verbatim>\<open>get\<close>, and the loop ends there with \<^verbatim>\<open>AttributeError\<close>.
\<close>

fun format_items :: "json list \<Rightarrow> dict list \<Rightarrow> exn + dict list" where
  "format_items [] formatted_items = Inr formatted_items"
| "format_items (JObj item # items) formatted_items =
     format_items items (formatted_items @ [list_item_fields item])"
| "format_items (_ # items) formatted_items = Inl AttributeError"

text \<open>
  The function returns a plain dictionary. Its handler catches \<^verbatim>\<open>RequestException\<close>
  only; every other exception leaves the function.
\<close>

definition list_catalog_items ::
  "(json \<Rightarrow> string) \<Rightarrow> 'w transport \<Rightarrow> string \<Rightarrow> (string \<times> string) list
     \<Rightarrow> ListCatalogItemsParams \<Rightarrow> 'w net \<Rightarrow> (exn + dict) \<times> 'w net" where
  "list_catalog_items py_str tr instance_url auth_headers params s =
     (case call tr (list_request instance_url auth_headers params) s of
        (resp, s1) \<Rightarrow>
          (case (case checked_json resp of
                   Inl e \<Rightarrow> Inl e
                 | Inr j \<Rightarrow>
                     (case py_get j ''result'' (JArr []) of
                        Inl e \<Rightarrow> Inl e
                      | Inr items_json \<Rightarrow>
                          (case py_iter items_json of
                             Inl e \<Rightarrow> Inl e
                           | Inr items \<Rightarrow> format_items items []))) of
             Inr formatted_items \<Rightarrow>
               (Inr [(''success'', JBool True),
                     (''message'', JStr (''Retrieved '' @ py_str (JInt (int (length formatted_items)))
                                         @ '' catalog items'')),
                     (''items'', JArr (map JObj formatted_items)),
                     (''total'', JInt (int (length formatted_items))),
                     (''limit'', JInt (limit params)),
                     (''offset'', JInt (offset params))], s1)
           | Inl (RequestException e) \<Rightarrow>
               (Inr [(''success'', JBool False),
                     (''message'', JStr (''Error listing catalog items: '' @ e)),
                     (''items'', JArr []),
                     (''total'', JInt 0),
                     (''limit'', JInt (limit params)),
                     (''offset'', JInt (offset params))], s1)
           | Inl e \<Rightarrow> (Inl e, s1)))"

subsection \<open>\<^verbatim>\<open>get_catalog_item\<close>\<close>

text \<open>Lines 195 to 208: the one \<^verbatim>\<open>GET\<close> of the operation.\<close>

definition get_request :: "string \<Rightarrow> (string \<times> string) list \<Rightarrow> GetCatalogItemParams \<Rightarrow> request" where
  "get_request instance_url auth_headers params =
     \<lparr>verb = GET,
      url = instance_url @ ''/api/sn_sc/servicecatalog/items/'' @ GetCatalogItemParams.item_id params,
      headers = read_headers auth_headers,
      query_params = Some [(''sysparm_display_value'', JStr ''true''),
                           (''sysparm_exclude_reference_link'', JStr ''true'')],
      json_body = None\<rparr>"

text \<open>Lines 223 to 239: the dictionary built from the item of the payload.\<close>

definition get_item_fields :: "dict \<Rightarrow> dict" where
  "get_item_fields item =
     [(''sys_id'', dict_get item ''sys_id'' (JStr '''')),
      (''name'', dict_get item ''name'' (JStr '''')),
      (''short_description'', dict_get item ''short_description'' (JStr '''')),
      (''description'', dict_get item ''description'' (JStr '''')),
      (''category'', dict_get item ''category'' (JStr '''')),
      (''price'', dict_get item ''price'' (JStr '''')),
      (''picture'', dict_get item ''picture'' (JStr '''')),
      (''active'', dict_get item ''active'' (JStr '''')),
      (''order'', dict_get item ''order'' (JStr '''')),
      (''delivery_time'', dict_get item ''delivery_time'' (JStr '''')),
      (''availability'', dict_get item ''availability'' (JStr '''')),
      (''mandatory_attachment'', dict_get item ''mandatory_attachment'' (JStr '''')),
      (''variables'', dict_get item ''variables'' (JStr '''')),
      (''ui_policies'', dict_get item ''ui_policy'' (JStr '''')),
      (''client_scripts'', dict_get item ''client_script'' (JStr ''''))]"

text \<open>
  Lines 213 to 245, from the parsed body on: a falsy \<^verbatim>\<open>result\<close> is "not found"; a
  truthy one that is not a dictionary raises \<^verbatim>\<open>AttributeError\<close> at its first
  \<^verbatim>\<open>get\<close>.
\<close>

definition get_item_outcome :: "(json \<Rightarrow> string) \<Rightarrow> GetCatalogItemParams \<Rightarrow> json \<Rightarrow> exn + CatalogResponse" where
  "get_item_outcome py_str params j =
     (case py_get j ''result'' (JObj []) of
        Inl e \<Rightarrow> Inl e
      | Inr item_json \<Rightarrow>
          if \<not> truthy item_json then
            Inr \<lparr>success = False,
                 message = ''Catalog item not found: '' @ GetCatalogItemParams.item_id params,
                 data = None\<rparr>
          else
            (case item_json of
               JObj item \<Rightarrow>
                 Inr \<lparr>success = True,
                      message = ''Retrieved catalog item: '' @ py_str (dict_get item ''name'' (JStr '''')),
                      data = Some (get_item_fields item)\<rparr>
             | _ \<Rightarrow> Inl AttributeError))"

definition get_catalog_item ::
  "(json \<Rightarrow> string) \<Rightarrow> 'w transport \<Rightarrow> string \<Rightarrow> (string \<times> string) list
     \<Rightarrow> GetCatalogItemParams \<Rightarrow> 'w net \<Rightarrow> (exn + CatalogResponse) \<times> 'w net" where
  "get_catalog_item py_str tr instance_url auth_headers params s =
     (case call tr (get_request instance_url auth_headers params) s of
        (resp, s1) \<Rightarrow>
          (except_RequestException ''Error getting catalog item: ''
             (case checked_json resp of
                Inl e \<Rightarrow> Inl e
              | Inr j \<Rightarrow> get_item_outcome py_str params j),
           s1))"

subsection \<open>\<^verbatim>\<open>move_catalog_items\<close>\<close>

text \<open>Lines 524 to 530: the \<^verbatim>\<open>PATCH\<close> that moves one item.\<close>

definition move_request :: "string \<Rightarrow> (string \<times> string) list \<Rightarrow> string \<Rightarrow> string \<Rightarrow> request" where
  "move_request base hdrs target iid =
     \<lparr>verb = PATCH, url = base @ ''/'' @ iid, headers = hdrs,
      query_params = None, json_body = Some [(''category'', JStr target)]\<rparr>"

text \<open>The entry that a failed call adds to \<^verbatim>\<open>failed_items\<close> (line 535).\<close>

definition failed_item :: "string \<Rightarrow> string \<Rightarrow> json" where
  "failed_item iid e = JObj [(''item_id'', JStr iid), (''error'', JStr e)]"

text \<open>
  Lines 523 to 535: one \<^verbatim>\<open>PATCH\<close> for each item id, in order. A call where
  \<^verbatim>\<open>requests.patch\<close> or \<^verbatim>\<open>raise_for_status()\<close> raises \<^verbatim>\<open>RequestException\<close>
  adds an entry to \<^verbatim>\<open>failed_items\<close>; every other call adds one to
  \<^verbatim>\<open>success_count\<close> (the body of the answer is never read here). The loop carries
  \<^verbatim>\<open>(success_count, failed_items)\<close>.
\<close>

fun move_loop ::
  "'w transport \<Rightarrow> string \<Rightarrow> (string \<times> string) list \<Rightarrow> string \<Rightarrow> string list
     \<Rightarrow> int \<times> json list \<Rightarrow> 'w net \<Rightarrow> (int \<times> json list) \<times> 'w net" where
  "move_loop tr base hdrs target [] acc s = (acc, s)"
| "move_loop tr base hdrs target (iid # rest) (success_count, failed_items) s =
     (case call tr (move_request base hdrs target iid) s of
        (resp, s') \<Rightarrow>
          (case resp of
             TransportError e \<Rightarrow>
               move_loop tr base hdrs target rest
                 (success_count, failed_items @ [failed_item iid e]) s'
           | _ \<Rightarrow> move_loop tr base hdrs target rest (success_count + 1, failed_items) s'))"

text \<open>
  Lines 519 to 558. Inside the outer \<^verbatim>\<open>try\<close> nothing but the calls can raise, and the
  inner handler catches what they raise, so the handler of line 560 is never entered: the
  function always returns an outcome.
\<close>

definition move_catalog_items ::
  "(json \<Rightarrow> string) \<Rightarrow> 'w transport \<Rightarrow> string \<Rightarrow> (string \<times> string) list
     \<Rightarrow> MoveCatalogItemsParams \<Rightarrow> 'w net \<Rightarrow> CatalogResponse \<times> 'w net" where
  "move_catalog_items py_str tr instance_url auth_headers params s =
     (case move_loop tr (instance_url @ ''/api/now/table/sc_cat_item'') (write_headers auth_headers)
             (target_category_id params) (item_ids params) (0, []) s of
        ((success_count, failed_items), s') \<Rightarrow>
          (if success_count = int (length (item_ids params)) then
             \<lparr>success = True,
              message = ''Successfully moved '' @ py_str (JInt success_count)
                          @ '' catalog items to category '' @ target_category_id params,
              data = Some [(''moved_items_count'', JInt success_count)]\<rparr>
           else if success_count > 0 then
             \<lparr>success = True,
              message = ''Partially moved catalog items. '' @ py_str (JInt success_count)
                          @ '' succeeded, '' @ py_str (JInt (int (length failed_items))) @ '' failed.'',
              data = Some [(''moved_items_count'', JInt success_count),
                           (''failed_items'', JArr failed_items)]\<rparr>
           else
             \<lparr>success = False,
              message = ''Failed to move any catalog items'',
              data = Some [(''failed_items'', JArr failed_items)]\<rparr>,
           s'))"

subsection \<open>\<^verbatim>\<open>submit_catalog_request\<close>\<close>

text \<open>
  Lines 587 to 589: the body of the submission. \<^verbatim>\<open>if params.variables\<close> holds for a
  dictionary with at least one entry; \<^verbatim>\<open>None\<close> and the empty dictionary are falsy.
\<close>

definition submit_body :: "SubmitCatalogRequestParams \<Rightarrow> dict" where
  "submit_body params =
     (case variables params of
        None \<Rightarrow> []
      | Some vs \<Rightarrow> if vs \<noteq> [] then [(''variables'', JObj vs)] else [])"

text \<open>Lines 582 to 585: the endpoint of the submission.\<close>

definition submit_url :: "string \<Rightarrow> SubmitCatalogRequestParams \<Rightarrow> string \<Rightarrow> string" where
  "submit_url instance_url params item_type =
     (if item_type = ''producer''
      then instance_url @ ''/api/sn_sc/servicecatalog/items/'' @ SubmitCatalogRequestParams.item_id params @ ''/submit_producer''
      else instance_url @ ''/api/sn_sc/servicecatalog/items/'' @ SubmitCatalogRequestParams.item_id params @ ''/order_now'')"

text \<open>Line 597: the submission, a \<^verbatim>\<open>POST\<close> of the body to the endpoint.\<close>

definition submit_request ::
  "string \<Rightarrow> (string \<times> string) list \<Rightarrow> SubmitCatalogRequestParams \<Rightarrow> string \<Rightarrow> request" where
  "submit_request instance_url hdrs params item_type =
     \<lparr>verb = POST, url = submit_url instance_url params item_type, headers = hdrs,
      query_params = None, json_body = Some (submit_body params)\<rparr>"

text \<open>Lines 614 to 616: the address of the lookup of the request items of a request.\<close>

definition ritm_query_url :: "(json \<Rightarrow> string) \<Rightarrow> string \<Rightarrow> json \<Rightarrow> string" where
  "ritm_query_url py_str instance_url req_id =
     instance_url @ ''/api/now/table/sc_req_item''
       @ ''?sysparm_query=request='' @ py_str req_id @ ''&sysparm_fields=sys_id,number''
       @ ''&sysparm_limit=1&sysparm_display_value=true''"

text \<open>Line 617: the lookup, a \<^verbatim>\<open>GET\<close> with the headers of the submission.\<close>

definition ritm_request :: "(json \<Rightarrow> string) \<Rightarrow> string \<Rightarrow> (string \<times> string) list \<Rightarrow> json \<Rightarrow> request" where
  "ritm_request py_str instance_url hdrs req_id =
     \<lparr>verb = GET, url = ritm_query_url py_str instance_url req_id,
      headers = hdrs, query_params = None, json_body = None\<rparr>"

text \<open>
  Lines 620 to 626, after the lookup has answered with the parsed body \<open>ritm_json\<close>:
  the first row when there is one, the request itself otherwise. The result is the pair
  \<^verbatim>\<open>(record_id, record_number)\<close>.
\<close>

definition pick_ritm :: "dict \<Rightarrow> json \<Rightarrow> json \<Rightarrow> exn + json \<times> json" where
  "pick_ritm result req_id ritm_json =
     (case py_get ritm_json ''result'' (JArr []) of
        Inl e \<Rightarrow> Inl e
      | Inr ritm_list \<Rightarrow>
          if truthy ritm_list then
            (case py_index0 ritm_list of
               Inl e \<Rightarrow> Inl e
             | Inr row \<Rightarrow>
                 (case py_get row ''sys_id'' JNull of
                    Inl e \<Rightarrow> Inl e
                  | Inr record_id \<Rightarrow>
                      (case py_get row ''number'' JNull of
                         Inl e \<Rightarrow> Inl e
                       | Inr record_number \<Rightarrow> Inr (record_id, record_number))))
          else
            Inr (req_id,
                 py_or (dict_get result ''request_number'' JNull) (dict_get result ''number'' JNull)))"

text \<open>
  Lines 601 to 630: from the parsed \<^verbatim>\<open>result\<close> of the submission to the pair
  \<^verbatim>\<open>(record_id, record_number)\<close>. The first \<^verbatim>\<open>result.get\<close> raises
  \<^verbatim>\<open>AttributeError\<close> when \<^verbatim>\<open>result\<close> is not a dictionary.
\<close>

definition resolve_record ::
  "(json \<Rightarrow> string) \<Rightarrow> 'w transport \<Rightarrow> string \<Rightarrow> (string \<times> string) list \<Rightarrow> json \<Rightarrow> 'w net
     \<Rightarrow> (exn + json \<times> json) \<times> 'w net" where
  "resolve_record py_str tr instance_url hdrs result_json s =
     (case result_json of
        JObj result \<Rightarrow>
          (let created_table = py_or (dict_get result ''table'' JNull) (dict_get result ''record'' JNull)
           in if created_table = JStr ''sc_request'' then
                (let req_id = py_or (dict_get result ''sys_id'' JNull) (dict_get result ''request_id'' JNull)
                 in if \<not> truthy req_id then
                      (Inl (RuntimeError ''Cannot locate sys_id for created record''), s)
                    else
                      (case call tr (ritm_request py_str instance_url hdrs req_id) s of
                         (ritm_resp, s') \<Rightarrow>
                           (case checked_json ritm_resp of
                              Inl e \<Rightarrow> (Inl e, s')
                            | Inr ritm_json \<Rightarrow> (pick_ritm result req_id ritm_json, s'))))
              else
                (Inr (dict_get result ''sys_id'' JNull,
                      py_or (dict_get result ''number'' JNull) (dict_get result ''request_number'' JNull)),
                 s))
      | _ \<Rightarrow> (Inl AttributeError, s))"

text \<open>Lines 632 to 641: the successful outcome.\<close>

definition submitted :: "(json \<Rightarrow> string) \<Rightarrow> json \<times> json \<Rightarrow> CatalogResponse" where
  "submitted py_str r =
     (case r of (record_id, record_number) \<Rightarrow>
        \<lparr>success = True,
         message = ''Submitted catalog request; created record '' @ py_str (py_or record_number record_id),
         data = Some [(''record_id'', record_id), (''record_number'', record_number)]\<rparr>)"

text \<open>
  The function. \<open>py_str\<close> is Python's \<^verbatim>\<open>str\<close> on parsed values, used by the f-strings;
  \<open>instance_url\<close> is \<^verbatim>\<open>config.instance_url\<close>; \<open>auth_headers\<close> is what
  \<^verbatim>\<open>auth_manager.get_headers()\<close> returns. Line 593 of the source ends in a stray
  bracket; it is read as the assignment of \<^verbatim>\<open>Accept\<close> that every other operation makes.
  The result is \<open>Inr\<close> of the returned outcome, or \<open>Inl\<close> of the exception that leaves
  the function.
\<close>

definition submit_catalog_request ::
  "(json \<Rightarrow> string) \<Rightarrow> 'w transport \<Rightarrow> string \<Rightarrow> (string \<times> string) list
     \<Rightarrow> SubmitCatalogRequestParams \<Rightarrow> string \<Rightarrow> 'w net \<Rightarrow> (exn + CatalogResponse) \<times> 'w net" where
  "submit_catalog_request py_str tr instance_url auth_headers params item_type s =
     (let hdrs = write_headers auth_headers
      in case call tr (submit_request instance_url hdrs params item_type) s of
           (resp, s1) \<Rightarrow>
             (case checked_json resp of
                Inl e \<Rightarrow>
                  (except_RequestException ''Error submitting catalog request: '' (Inl e), s1)
              | Inr j \<Rightarrow>
                  (case py_get j ''result'' (JObj []) of
                     Inl e \<Rightarrow>
                       (except_RequestException ''Error submitting catalog request: '' (Inl e), s1)
                   | Inr result_json \<Rightarrow>
                       (case resolve_record py_str tr instance_url hdrs result_json s1 of
                          (Inl e, s2) \<Rightarrow>
                            (except_RequestException ''Error submitting catalog request: '' (Inl e), s2)
                        | (Inr r, s2) \<Rightarrow> (Inr (submitted py_str r), s2)))))"

section \<open>Notions of the specification\<close>

text \<open>
  The \<^verbatim>\<open>SubmissionResult\<close> of an outcome: the pair \<^verbatim>\<open>(record_id, record_number)\<close> that
  a successful outcome carries in its \<^verbatim>\<open>data\<close>. A failed outcome and a raised exception
  carry none.
\<close>

definition submission_result :: "exn + CatalogResponse \<Rightarrow> (json \<times> json) option" where
  "submission_result out =
     (case out of
        Inl e \<Rightarrow> None
      | Inr r \<Rightarrow>
          if success r then
            (case data r of
               None \<Rightarrow> None
             | Some d \<Rightarrow>
                 (case map_of d ''record_id'' of
                    None \<Rightarrow> None
                  | Some i \<Rightarrow>
                      (case map_of d ''record_number'' of
                         None \<Rightarrow> None
                       | Some n \<Rightarrow> Some (i, n))))
          else None)"

text \<open>A field is populated when it is not null.\<close>

definition populated :: "json \<Rightarrow> bool" where
  "populated v = (v \<noteq> JNull)"

definition both_populated :: "(json \<times> json) option \<Rightarrow> bool" where
  "both_populated sr = (case sr of None \<Rightarrow> False | Some p \<Rightarrow> populated (fst p) \<and> populated (snd p))"

definition both_null :: "(json \<times> json) option \<Rightarrow> bool" where
  "both_null sr = (sr = Some (JNull, JNull))"

text \<open>
  The discriminant of the response: the table hint, else the record hint, compared with
  the request marker.
\<close>

definition is_request_record :: "dict \<Rightarrow> bool" where
  "is_request_record result =
     (py_or (dict_get result ''table'' JNull) (dict_get result ''record'' JNull) = JStr ''sc_request'')"

text \<open>The parent identifier of a request record: \<^verbatim>\<open>sys_id\<close>, else \<^verbatim>\<open>request_id\<close>.\<close>

definition parent_id :: "dict \<Rightarrow> json" where
  "parent_id result = py_or (dict_get result ''sys_id'' JNull) (dict_get result ''request_id'' JNull)"

text \<open>
  The projection, in the words of the specification: each field of a fixed field set is
  the value that the payload has under the corresponding key, and the empty string when
  the payload has no such key. A field set pairs the name of the field with the key read.
\<close>

definition project :: "(string \<times> string) list \<Rightarrow> dict \<Rightarrow> dict" where
  "project fieldset item =
     map (\<lambda>f. (fst f, case map_of item (snd f) of Some v \<Rightarrow> v | None \<Rightarrow> JStr '''')) fieldset"

definition list_fields :: "(string \<times> string) list" where
  "list_fields =
     [(''sys_id'', ''sys_id''), (''name'', ''name''), (''short_description'', ''short_description''),
      (''category'', ''category''), (''price'', ''price''), (''picture'', ''picture''),
      (''active'', ''active''), (''order'', ''order'')]"

definition get_fields :: "(string \<times> string) list" where
  "get_fields =
     [(''sys_id'', ''sys_id''), (''name'', ''name''), (''short_description'', ''short_description''),
      (''description'', ''description''), (''category'', ''category''), (''price'', ''price''),
      (''picture'', ''picture''), (''active'', ''active''), (''order'', ''order''),
      (''delivery_time'', ''delivery_time''), (''availability'', ''availability''),
      (''mandatory_attachment'', ''mandatory_attachment''), (''variables'', ''variables''),
      (''ui_policies'', ''ui_policy''), (''client_scripts'', ''client_script'')]"

text \<open>
  What the transport answers to a sequence of requests issued one after the other, each
  in the state that the previous one left.
\<close>

fun answers :: "'w transport \<Rightarrow> request list \<Rightarrow> 'w \<Rightarrow> response list" where
  "answers tr [] w = []"
| "answers tr (rq # rqs) w = (case tr rq w of (resp, w') \<Rightarrow> resp # answers tr rqs w')"

text \<open>
  The item ids for which the transport fails, each with the text of its error, in the
  order of the calls: the i-th id is paired with the i-th answer.
\<close>

fun failures :: "string list \<Rightarrow> response list \<Rightarrow> (string \<times> string) list" where
  "failures (iid # ids) (TransportError e # rs) = (iid, e) # failures ids rs"
| "failures (iid # ids) (r # rs) = failures ids rs"
| "failures _ _ = []"

text \<open>The requests that \<^verbatim>\<open>move_catalog_items\<close> has to issue for its parameters.\<close>

definition move_requests :: "string \<Rightarrow> (string \<times> string) list \<Rightarrow> MoveCatalogItemsParams \<Rightarrow> request list" where
  "move_requests instance_url auth_headers params =
     map (move_request (instance_url @ ''/api/now/table/sc_cat_item'') (write_headers auth_headers)
            (target_category_id params))
       (item_ids params)"

section \<open>Example inputs\<close>

text \<open>
  Python's \<^verbatim>\<open>str\<close> on the values that the examples render in f-strings: a string is
  itself, an integer is its decimal numeral, then \<^verbatim>\<open>None\<close>, \<^verbatim>\<open>True\<close> and
  \<^verbatim>\<open>False\<close>. Floats and containers, which no example renders, are shown as a question
  mark.
\<close>

fun decimal :: "nat \<Rightarrow> string" where
  "decimal n =
     (if n < 10 then [''0123456789'' ! n] else decimal (n div 10) @ [''0123456789'' ! (n mod 10)])"

declare decimal.simps [simp del]

fun example_str :: "json \<Rightarrow> string" where
  "example_str (JStr s) = s"
| "example_str (JInt n) = (if n < 0 then ''-'' @ decimal (nat (- n)) else decimal (nat n))"
| "example_str JNull = ''None''"
| "example_str (JBool b) = (if b then ''True'' else ''False'')"
| "example_str _ = ''?''"

text \<open>A remote that answers every submission with one body and every other call with another.\<close>

definition remote :: "json \<Rightarrow> json \<Rightarrow> unit transport" where
  "remote submission lookup rq w = (if verb rq = POST then Body submission else Body lookup, w)"

definition start :: "unit net" where
  "start = \<lparr>world = (), sent = []\<rparr>"

definition itm001 :: SubmitCatalogRequestParams where
  "itm001 = \<lparr>item_id = ''ITM001'', variables = None\<rparr>"

definition prd1 :: SubmitCatalogRequestParams where
  "prd1 = \<lparr>item_id = ''PRD1'', variables = None\<rparr>"

definition req1_record :: dict where
  "req1_record = [(''table'', JStr ''sc_request''), (''sys_id'', JStr ''REQ1''),
                  (''request_number'', JStr ''REQ0001'')]"

definition req1_body :: json where
  "req1_body = JObj [(''result'', JObj req1_record)]"

definition ritm9_row :: dict where
  "ritm9_row = [(''sys_id'', JStr ''RITM9''), (''number'', JStr ''RITM0009'')]"

definition ritm9_body :: json where
  "ritm9_body = JObj [(''result'', JArr [JObj ritm9_row])]"

definition no_rows_body :: json where
  "no_rows_body = JObj [(''result'', JArr [])]"

definition inc1_record :: dict where
  "inc1_record = [(''record'', JStr ''incident''), (''sys_id'', JStr ''INC1''), (''number'', JStr ''INC0001'')]"

definition inc1_body :: json where
  "inc1_body = JObj [(''result'', JObj inc1_record)]"

definition inc1_unnumbered_body :: json where
  "inc1_unnumbered_body =
     JObj [(''result'', JObj [(''record'', JStr ''incident''), (''sys_id'', JStr ''INC1'')])]"

definition req_without_id_record :: dict where
  "req_without_id_record = [(''table'', JStr ''sc_request''), (''number'', JStr ''REQ0001'')]"

definition req_without_id_body :: json where
  "req_without_id_body = JObj [(''result'', JObj req_without_id_record)]"

definition itm404 :: GetCatalogItemParams where
  "itm404 = \<lparr>GetCatalogItemParams.item_id = ''ITM404''\<rparr>"

definition itm001_lookup :: GetCatalogItemParams where
  "itm001_lookup = \<lparr>GetCatalogItemParams.item_id = ''ITM001''\<rparr>"

definition first_page :: ListCatalogItemsParams where
  "first_page = \<lparr>limit = 10, offset = 0, category = None, query = None, active = True\<rparr>"

definition laptop_item :: dict where
  "laptop_item = [(''sys_id'', JStr ''ITM001''), (''name'', JStr ''Laptop''), (''price'', JNull)]"

definition laptop_body :: json where
  "laptop_body = JObj [(''result'', JObj laptop_item)]"

definition laptops_body :: json where
  "laptops_body = JObj [(''result'', JArr (map JObj [laptop_item]))]"

text \<open>A remote that counts the calls and refuses every second one.\<close>

definition every_other :: "nat transport" where
  "every_other rq n = (if even n then Body JNull else TransportError ''503 Server Error'', Suc n)"

definition fresh :: "nat net" where
  "fresh = \<lparr>world = 0, sent = []\<rparr>"

definition move_three :: MoveCatalogItemsParams where
  "move_three = \<lparr>item_ids = [''a'', ''b'', ''c''], target_category_id = ''CAT1''\<rparr>"

definition move_none :: MoveCatalogItemsParams where
  "move_none = \<lparr>item_ids = [], target_category_id = ''CAT1''\<rparr>"

section \<open>Properties of \<^verbatim>\<open>submit_catalog_request\<close>\<close>

subsection \<open>One lemma for each way through the function\<close>

lemma py_or_truthy: "truthy a \<Longrightarrow> py_or a b = a"
  by (simp add: py_or_def)

lemma py_or_falsy: "\<not> truthy a \<Longrightarrow> py_or a b = b"
  by (simp add: py_or_def)

lemma truthy_populated: "truthy v \<Longrightarrow> populated v"
  by (cases v) (simp_all add: populated_def)

lemma submission_result_submitted [simp]:
  "submission_result (Inr (submitted py_str (i, n))) = Some (i, n)"
  by (simp add: submission_result_def submitted_def)

lemma submit_transport_error:
  assumes "tr (submit_request instance_url (write_headers auth_headers) params item_type) (world s)
             = (TransportError e, w1)"
  shows "submit_catalog_request py_str tr instance_url auth_headers params item_type s =
      (Inr \<lparr>success = False, message = ''Error submitting catalog request: '' @ e, data = None\<rparr>,
       s\<lparr>world := w1,
         sent := sent s @ [submit_request instance_url (write_headers auth_headers) params item_type]\<rparr>)"
  using assms by (simp add: submit_catalog_request_def call_def Let_def)

lemma submit_direct:
  assumes "tr (submit_request instance_url (write_headers auth_headers) params item_type) (world s)
             = (Body (JObj payload), w1)"
    and "dict_get payload ''result'' (JObj []) = JObj result"
    and "\<not> is_request_record result"
  shows "submit_catalog_request py_str tr instance_url auth_headers params item_type s =
      (Inr (submitted py_str (dict_get result ''sys_id'' JNull,
             py_or (dict_get result ''number'' JNull) (dict_get result ''request_number'' JNull))),
       s\<lparr>world := w1,
         sent := sent s @ [submit_request instance_url (write_headers auth_headers) params item_type]\<rparr>)"
  using assms
  by (simp add: submit_catalog_request_def call_def Let_def resolve_record_def is_request_record_def)

lemma submit_no_parent_id:
  assumes "tr (submit_request instance_url (write_headers auth_headers) params item_type) (world s)
             = (Body (JObj payload), w1)"
    and "dict_get payload ''result'' (JObj []) = JObj result"
    and "is_request_record result"
    and "\<not> truthy (parent_id result)"
  shows "submit_catalog_request py_str tr instance_url auth_headers params item_type s =
      (Inl (RuntimeError ''Cannot locate sys_id for created record''),
       s\<lparr>world := w1,
         sent := sent s @ [submit_request instance_url (write_headers auth_headers) params item_type]\<rparr>)"
  using assms
  by (simp add: submit_catalog_request_def call_def Let_def resolve_record_def is_request_record_def
      parent_id_def)

lemma submit_first_row:
  assumes "tr (submit_request instance_url (write_headers auth_headers) params item_type) (world s)
             = (Body (JObj payload), w1)"
    and "dict_get payload ''result'' (JObj []) = JObj result"
    and "is_request_record result"
    and "truthy (parent_id result)"
    and "tr (ritm_request py_str instance_url (write_headers auth_headers) (parent_id result)) w1
           = (Body (JObj lookup), w2)"
    and "dict_get lookup ''result'' (JArr []) = JArr (JObj row # rows)"
  shows "submit_catalog_request py_str tr instance_url auth_headers params item_type s =
      (Inr (submitted py_str (dict_get row ''sys_id'' JNull, dict_get row ''number'' JNull)),
       s\<lparr>world := w2,
         sent := sent s @
           [submit_request instance_url (write_headers auth_headers) params item_type,
            ritm_request py_str instance_url (write_headers auth_headers) (parent_id result)]\<rparr>)"
  using assms
  by (simp add: submit_catalog_request_def call_def Let_def resolve_record_def pick_ritm_def
      is_request_record_def parent_id_def)

lemma submit_no_rows:
  assumes "tr (submit_request instance_url (write_headers auth_headers) params item_type) (world s)
             = (Body (JObj payload), w1)"
    and "dict_get payload ''result'' (JObj []) = JObj result"
    and "is_request_record result"
    and "truthy (parent_id result)"
    and "tr (ritm_request py_str instance_url (write_headers auth_headers) (parent_id result)) w1
           = (Body (JObj lookup), w2)"
    and "dict_get lookup ''result'' (JArr []) = JArr []"
  shows "submit_catalog_request py_str tr instance_url auth_headers params item_type s =
      (Inr (submitted py_str (parent_id result,
             py_or (dict_get result ''request_number'' JNull) (dict_get result ''number'' JNull))),
       s\<lparr>world := w2,
         sent := sent s @
           [submit_request instance_url (write_headers auth_headers) params item_type,
            ritm_request py_str instance_url (write_headers auth_headers) (parent_id result)]\<rparr>)"
  using assms
  by (simp add: submit_catalog_request_def call_def Let_def resolve_record_def pick_ritm_def
      is_request_record_def parent_id_def)

lemma submit_sends_first:
  "\<exists>rest. sent (snd (submit_catalog_request py_str tr instance_url auth_headers params item_type s))
      = sent s @ submit_request instance_url (write_headers auth_headers) params item_type # rest"
  by (auto simp add: submit_catalog_request_def call_def Let_def resolve_record_def
      split: prod.splits sum.splits json.splits if_splits)

text \<open>What the example remote answers.\<close>

lemma remote_submit [simp]:
  "remote a b (submit_request instance_url hdrs params item_type) w = (Body a, w)"
  by (simp add: remote_def submit_request_def)

lemma remote_ritm [simp]:
  "remote a b (ritm_request py_str instance_url hdrs req_id) w = (Body b, w)"
  by (simp add: remote_def ritm_request_def)

subsection \<open>The pair of the result\<close>

text \<open>
  Claim C1, as stated: for every remote submission response and every secondary-lookup
  result, the \<^verbatim>\<open>SubmissionResult\<close> has \<^verbatim>\<open>record_id\<close> and \<^verbatim>\<open>record_number\<close> both
  populated or both null. It fails: a record producer answers with a direct record that
  has a \<^verbatim>\<open>sys_id\<close> and neither \<^verbatim>\<open>number\<close> nor \<^verbatim>\<open>request_number\<close>; the result then
  carries the identifier and a null number.
\<close>

theorem submission_result_mixed_counterexample:
  "fst (submit_catalog_request example_str (remote inc1_unnumbered_body no_rows_body)
          ''https://sn'' [] prd1 ''producer'' start)
     = Inr \<lparr>success = True,
            message = ''Submitted catalog request; created record INC1'',
            data = Some [(''record_id'', JStr ''INC1''), (''record_number'', JNull)]\<rparr>
   \<and> submission_result
         (fst (submit_catalog_request example_str (remote inc1_unnumbered_body no_rows_body)
                 ''https://sn'' [] prd1 ''producer'' start))
       = Some (JStr ''INC1'', JNull)"
  by (simp add: submit_catalog_request_def call_def resolve_record_def py_or_def dict_get_def
      submitted_def submission_result_def remote_def submit_request_def inc1_unnumbered_body_def
      start_def prd1_def)

text \<open>
  Claim C1, amended. The two fields are read from one record, each on its own: from the
  first row of the lookup, or else from the response. They are both populated when that
  record carries both its identifier and its number, and both null when it carries
  neither:
  \<^item> a direct record: both populated when \<^verbatim>\<open>sys_id\<close> is not null and \<^verbatim>\<open>number\<close> or
    \<^verbatim>\<open>request_number\<close> is truthy; both null when the three are missing or null;
  \<^item> a request record whose lookup has a first row: both populated when the row's
    \<^verbatim>\<open>sys_id\<close> and \<^verbatim>\<open>number\<close> are not null; both null when both are missing or null;
  \<^item> a request record whose lookup has no row: \<^verbatim>\<open>record_id\<close> is populated, and so is
    \<^verbatim>\<open>record_number\<close> when \<^verbatim>\<open>request_number\<close> or \<^verbatim>\<open>number\<close> is truthy.
  Nothing is promised for a record that carries one of the two without the other.
\<close>

theorem submission_result_pairing:
  assumes sub: "tr (submit_request instance_url (write_headers auth_headers) params item_type) (world s)
                  = (Body (JObj payload), w1)"
    and res: "dict_get payload ''result'' (JObj []) = JObj result"
  shows
    "(\<not> is_request_record result \<longrightarrow>
        (populated (dict_get result ''sys_id'' JNull)
           \<and> (truthy (dict_get result ''number'' JNull) \<or> truthy (dict_get result ''request_number'' JNull))
         \<longrightarrow> both_populated (submission_result
               (fst (submit_catalog_request py_str tr instance_url auth_headers params item_type s))))
      \<and> (\<not> populated (dict_get result ''sys_id'' JNull) \<and> \<not> populated (dict_get result ''number'' JNull)
           \<and> \<not> populated (dict_get result ''request_number'' JNull)
         \<longrightarrow> both_null (submission_result
               (fst (submit_catalog_request py_str tr instance_url auth_headers params item_type s)))))
   \<and> (is_request_record result \<and> truthy (parent_id result)
        \<and> tr (ritm_request py_str instance_url (write_headers auth_headers) (parent_id result)) w1
            = (Body (JObj lookup), w2)
        \<and> dict_get lookup ''result'' (JArr []) = JArr (JObj row # rows) \<longrightarrow>
        (populated (dict_get row ''sys_id'' JNull) \<and> populated (dict_get row ''number'' JNull)
         \<longrightarrow> both_populated (submission_result
               (fst (submit_catalog_request py_str tr instance_url auth_headers params item_type s))))
      \<and> (\<not> populated (dict_get row ''sys_id'' JNull) \<and> \<not> populated (dict_get row ''number'' JNull)
         \<longrightarrow> both_null (submission_result
               (fst (submit_catalog_request py_str tr instance_url auth_headers params item_type s)))))
   \<and> (is_request_record result \<and> truthy (parent_id result)
        \<and> tr (ritm_request py_str instance_url (write_headers auth_headers) (parent_id result)) w1
            = (Body (JObj lookup'), w2')
        \<and> dict_get lookup' ''result'' (JArr []) = JArr [] \<longrightarrow>
        (truthy (dict_get result ''request_number'' JNull) \<or> truthy (dict_get result ''number'' JNull)
         \<longrightarrow> both_populated (submission_result
               (fst (submit_catalog_request py_str tr instance_url auth_headers params item_type s)))))"
proof (intro conjI impI)
  assume d: "\<not> is_request_record result"
  note eq = submit_direct [where tr = tr and py_str = py_str, OF sub res d]
  {
    assume "populated (dict_get result ''sys_id'' JNull)
      \<and> (truthy (dict_get result ''number'' JNull) \<or> truthy (dict_get result ''request_number'' JNull))"
    then show "both_populated (submission_result
        (fst (submit_catalog_request py_str tr instance_url auth_headers params item_type s)))"
      by (auto simp add: eq both_populated_def py_or_def truthy_populated)
  next
    assume "\<not> populated (dict_get result ''sys_id'' JNull) \<and> \<not> populated (dict_get result ''number'' JNull)
           \<and> \<not> populated (dict_get result ''request_number'' JNull)"
    then show "both_null (submission_result
        (fst (submit_catalog_request py_str tr instance_url auth_headers params item_type s)))"
      by (simp add: eq both_null_def py_or_def populated_def)
  }
next
  assume h: "is_request_record result \<and> truthy (parent_id result)
        \<and> tr (ritm_request py_str instance_url (write_headers auth_headers) (parent_id result)) w1
            = (Body (JObj lookup), w2)
        \<and> dict_get lookup ''result'' (JArr []) = JArr (JObj row # rows)"
  then have eq: "fst (submit_catalog_request py_str tr instance_url auth_headers params item_type s)
      = Inr (submitted py_str (dict_get row ''sys_id'' JNull, dict_get row ''number'' JNull))"
    using submit_first_row [where tr = tr and py_str = py_str, OF sub res, of lookup w2 row rows] by simp
  {
    assume "populated (dict_get row ''sys_id'' JNull) \<and> populated (dict_get row ''number'' JNull)"
    then show "both_populated (submission_result
        (fst (submit_catalog_request py_str tr instance_url auth_headers params item_type s)))"
      by (simp add: eq both_populated_def)
  next
    assume "\<not> populated (dict_get row ''sys_id'' JNull) \<and> \<not> populated (dict_get row ''number'' JNull)"
    then show "both_null (submission_result
        (fst (submit_catalog_request py_str tr instance_url auth_headers params item_type s)))"
      by (simp add: eq both_null_def populated_def)
  }
next
  assume h: "is_request_record result \<and> truthy (parent_id result)
        \<and> tr (ritm_request py_str instance_url (write_headers auth_headers) (parent_id result)) w1
            = (Body (JObj lookup'), w2')
        \<and> dict_get lookup' ''result'' (JArr []) = JArr []"
  then have eq: "fst (submit_catalog_request py_str tr instance_url auth_headers params item_type s)
      = Inr (submitted py_str (parent_id result,
             py_or (dict_get result ''request_number'' JNull) (dict_get result ''number'' JNull)))"
    using submit_no_rows [where tr = tr and py_str = py_str, OF sub res, of lookup' w2'] by simp
  assume "truthy (dict_get result ''request_number'' JNull) \<or> truthy (dict_get result ''number'' JNull)"
  with h show "both_populated (submission_result
        (fst (submit_catalog_request py_str tr instance_url auth_headers params item_type s)))"
    by (auto simp add: eq both_populated_def py_or_def truthy_populated)
qed

theorem submission_result_pairing_witness:
  "\<not> is_request_record inc1_record
   \<and> populated (dict_get inc1_record ''sys_id'' JNull) \<and> truthy (dict_get inc1_record ''number'' JNull)
   \<and> both_populated (submission_result
         (fst (submit_catalog_request example_str (remote inc1_body no_rows_body)
                 ''https://sn'' [] prd1 ''producer'' start)))
   \<and> is_request_record req1_record \<and> truthy (parent_id req1_record)
   \<and> populated (dict_get ritm9_row ''sys_id'' JNull) \<and> populated (dict_get ritm9_row ''number'' JNull)
   \<and> both_populated (submission_result
         (fst (submit_catalog_request example_str (remote req1_body ritm9_body)
                 ''https://sn'' [] itm001 ''item'' start)))
   \<and> truthy (dict_get req1_record ''request_number'' JNull)
   \<and> both_populated (submission_result
         (fst (submit_catalog_request example_str (remote req1_body no_rows_body)
                 ''https://sn'' [] itm001 ''item'' start)))"
proof -
  have facts:
    "\<not> is_request_record inc1_record"
    "populated (dict_get inc1_record ''sys_id'' JNull)"
    "truthy (dict_get inc1_record ''number'' JNull)"
    "is_request_record req1_record"
    "truthy (parent_id req1_record)"
    "populated (dict_get ritm9_row ''sys_id'' JNull)"
    "populated (dict_get ritm9_row ''number'' JNull)"
    "truthy (dict_get req1_record ''request_number'' JNull)"
    by (simp_all add: is_request_record_def parent_id_def py_or_def dict_get_def populated_def
        inc1_record_def req1_record_def ritm9_row_def)
  have direct: "both_populated (submission_result
         (fst (submit_catalog_request example_str (remote inc1_body no_rows_body)
                 ''https://sn'' [] prd1 ''producer'' start)))"
    using facts
      submission_result_pairing [where tr = "remote inc1_body no_rows_body" and py_str = example_str
        and instance_url = "''https://sn''" and auth_headers = "[]" and params = prd1
        and item_type = "''producer''" and s = start and ?w1.0 = "()"
        and payload = "[(''result'', JObj inc1_record)]" and result = inc1_record]
    by (simp add: inc1_body_def dict_get_def start_def)
  have row: "both_populated (submission_result
         (fst (submit_catalog_request example_str (remote req1_body ritm9_body)
                 ''https://sn'' [] itm001 ''item'' start)))"
    using facts
      submission_result_pairing [where tr = "remote req1_body ritm9_body" and py_str = example_str
        and instance_url = "''https://sn''" and auth_headers = "[]" and params = itm001
        and item_type = "''item''" and s = start and ?w1.0 = "()"
        and payload = "[(''result'', JObj req1_record)]" and result = req1_record
        and lookup = "[(''result'', JArr [JObj ritm9_row])]" and ?w2.0 = "()"
        and row = ritm9_row and rows = "[]"]
    by (simp add: req1_body_def ritm9_body_def dict_get_def start_def)
  have none: "both_populated (submission_result
         (fst (submit_catalog_request example_str (remote req1_body no_rows_body)
                 ''https://sn'' [] itm001 ''item'' start)))"
    using facts
      submission_result_pairing [where tr = "remote req1_body no_rows_body" and py_str = example_str
        and instance_url = "''https://sn''" and auth_headers = "[]" and params = itm001
        and item_type = "''item''" and s = start and ?w1.0 = "()"
        and payload = "[(''result'', JObj req1_record)]" and result = req1_record
        and lookup' = "[(''result'', JArr [])]" and w2' = "()"]
    by (simp add: req1_body_def no_rows_body_def dict_get_def start_def)
  from facts direct row none show ?thesis by simp
qed

subsection \<open>A request record without a parent identifier\<close>

text \<open>
  Claim C2, as stated: for a response classified as a request record in which \<^verbatim>\<open>sys_id\<close>
  and \<^verbatim>\<open>request_id\<close> are both absent, the function returns an outcome with
  \<^verbatim>\<open>success=false\<close> and \<^verbatim>\<open>data=null\<close>, and no exception reaches the caller. It
  fails: line 611 raises \<^verbatim>\<open>RuntimeError\<close>, the handler of line 643 catches
  \<^verbatim>\<open>RequestException\<close> only, and the exception leaves the function.
\<close>

theorem missing_parent_id_counterexample:
  "fst (submit_catalog_request example_str (remote req_without_id_body no_rows_body)
          ''https://sn'' [] itm001 ''item'' start)
     = Inl (RuntimeError ''Cannot locate sys_id for created record'')"
  by (simp add: submit_catalog_request_def call_def resolve_record_def py_or_def dict_get_def
      remote_def submit_request_def req_without_id_body_def req_without_id_record_def start_def)

text \<open>
  Claim C2, amended: for every response classified as a request record in which
  \<^verbatim>\<open>sys_id\<close> and \<^verbatim>\<open>request_id\<close> are both absent (missing, null or empty, as
  \<^verbatim>\<open>not req_id\<close> tests it), the function raises
  \<^verbatim>\<open>RuntimeError("Cannot locate sys_id for created record")\<close>; the exception reaches the
  caller, no outcome is returned, and no lookup is issued.
\<close>

theorem missing_parent_id_raises:
  assumes "tr (submit_request instance_url (write_headers auth_headers) params item_type) (world s)
             = (Body (JObj payload), w1)"
    and "dict_get payload ''result'' (JObj []) = JObj result"
    and "is_request_record result"
    and "\<not> truthy (dict_get result ''sys_id'' JNull)"
    and "\<not> truthy (dict_get result ''request_id'' JNull)"
  shows "submit_catalog_request py_str tr instance_url auth_headers params item_type s =
      (Inl (RuntimeError ''Cannot locate sys_id for created record''),
       s\<lparr>world := w1,
         sent := sent s @ [submit_request instance_url (write_headers auth_headers) params item_type]\<rparr>)"
proof -
  from assms(4,5) have "\<not> truthy (parent_id result)"
    by (simp add: parent_id_def py_or_def)
  with assms(1-3) show ?thesis
    by (rule submit_no_parent_id [where tr = tr])
qed

theorem missing_parent_id_raises_witness:
  "is_request_record req_without_id_record
   \<and> \<not> truthy (dict_get req_without_id_record ''sys_id'' JNull)
   \<and> \<not> truthy (dict_get req_without_id_record ''request_id'' JNull)
   \<and> submit_catalog_request example_str (remote req_without_id_body no_rows_body)
        ''https://sn'' [] itm001 ''item'' start
      = (Inl (RuntimeError ''Cannot locate sys_id for created record''),
         \<lparr>world = (), sent = [submit_request ''https://sn'' (write_headers []) itm001 ''item'']\<rparr>)"
proof -
  have facts:
    "is_request_record req_without_id_record"
    "\<not> truthy (dict_get req_without_id_record ''sys_id'' JNull)"
    "\<not> truthy (dict_get req_without_id_record ''request_id'' JNull)"
    by (simp_all add: is_request_record_def py_or_def dict_get_def req_without_id_record_def)
  then show ?thesis
    using missing_parent_id_raises [where tr = "remote req_without_id_body no_rows_body"
        and py_str = example_str and instance_url = "''https://sn''" and auth_headers = "[]"
        and params = itm001 and item_type = "''item''" and s = start and ?w1.0 = "()"
        and payload = "[(''result'', JObj req_without_id_record)]" and result = req_without_id_record]
    by (simp add: req_without_id_body_def dict_get_def start_def)
qed

subsection \<open>A request record with a parent identifier\<close>

text \<open>
  Claim C3: for every response classified as a request record with a resolvable parent
  identifier (\<^verbatim>\<open>sys_id or request_id\<close> is truthy), if the lookup returns at least one
  row (a JSON object), then \<^verbatim>\<open>record_id\<close> and \<^verbatim>\<open>record_number\<close> are the first row's
  \<^verbatim>\<open>sys_id\<close> and \<^verbatim>\<open>number\<close> (null where the row has no such key). The result is
  read from the row alone: no field of the parent request enters it. Two requests were
  issued, the submission and the lookup.
\<close>

theorem first_row_is_the_result:
  assumes "tr (submit_request instance_url (write_headers auth_headers) params item_type) (world s)
             = (Body (JObj payload), w1)"
    and "dict_get payload ''result'' (JObj []) = JObj result"
    and "is_request_record result"
    and "truthy (parent_id result)"
    and "tr (ritm_request py_str instance_url (write_headers auth_headers) (parent_id result)) w1
           = (Body (JObj lookup), w2)"
    and "dict_get lookup ''result'' (JArr []) = JArr (JObj row # rows)"
  shows "submission_result
           (fst (submit_catalog_request py_str tr instance_url auth_headers params item_type s))
         = Some (dict_get row ''sys_id'' JNull, dict_get row ''number'' JNull)
       \<and> submit_catalog_request py_str tr instance_url auth_headers params item_type s
         = (Inr \<lparr>success = True,
                  message = ''Submitted catalog request; created record ''
                              @ py_str (py_or (dict_get row ''number'' JNull) (dict_get row ''sys_id'' JNull)),
                  data = Some [(''record_id'', dict_get row ''sys_id'' JNull),
                               (''record_number'', dict_get row ''number'' JNull)]\<rparr>,
            s\<lparr>world := w2,
              sent := sent s @
                [submit_request instance_url (write_headers auth_headers) params item_type,
                 ritm_request py_str instance_url (write_headers auth_headers) (parent_id result)]\<rparr>)"
proof -
  note eq = submit_first_row [where tr = tr and py_str = py_str, OF assms]
  show ?thesis
    by (simp add: eq) (simp add: submitted_def)
qed

theorem first_row_is_the_result_witness:
  "is_request_record req1_record \<and> truthy (parent_id req1_record)
   \<and> submission_result
        (fst (submit_catalog_request example_str (remote req1_body ritm9_body)
                ''https://sn'' [] itm001 ''item'' start))
      = Some (JStr ''RITM9'', JStr ''RITM0009'')"
proof -
  have facts: "is_request_record req1_record" "truthy (parent_id req1_record)"
    by (simp_all add: is_request_record_def parent_id_def py_or_def dict_get_def req1_record_def)
  then show ?thesis
    using first_row_is_the_result [where tr = "remote req1_body ritm9_body"
        and py_str = example_str and instance_url = "''https://sn''" and auth_headers = "[]"
        and params = itm001 and item_type = "''item''" and s = start and ?w1.0 = "()"
        and payload = "[(''result'', JObj req1_record)]" and result = req1_record
        and lookup = "[(''result'', JArr [JObj ritm9_row])]" and ?w2.0 = "()"
        and row = ritm9_row and rows = "[]"]
    by (simp add: req1_body_def ritm9_body_def dict_get_def start_def ritm9_row_def
        submission_result_def)
qed

text \<open>
  Claim C4: for every response classified as a request record with a resolvable parent
  identifier, if the lookup returns zero rows, then \<^verbatim>\<open>record_id\<close> is the parent
  request's identifier (\<^verbatim>\<open>sys_id\<close>, else \<^verbatim>\<open>request_id\<close>) and \<^verbatim>\<open>record_number\<close> is its
  \<^verbatim>\<open>request_number\<close>, falling back to its \<^verbatim>\<open>number\<close> when \<^verbatim>\<open>request_number\<close> is
  absent. Absent is read as the source tests it, with \<^verbatim>\<open>or\<close>: the key is missing, or its
  value is null or empty. In particular a missing key gives the \<^verbatim>\<open>number\<close> field.
\<close>

theorem no_rows_falls_back_to_request:
  assumes "tr (submit_request instance_url (write_headers auth_headers) params item_type) (world s)
             = (Body (JObj payload), w1)"
    and "dict_get payload ''result'' (JObj []) = JObj result"
    and "is_request_record result"
    and "truthy (parent_id result)"
    and "tr (ritm_request py_str instance_url (write_headers auth_headers) (parent_id result)) w1
           = (Body (JObj lookup), w2)"
    and "dict_get lookup ''result'' (JArr []) = JArr []"
  shows "submission_result
           (fst (submit_catalog_request py_str tr instance_url auth_headers params item_type s))
         = Some (parent_id result,
                 if truthy (dict_get result ''request_number'' JNull)
                 then dict_get result ''request_number'' JNull
                 else dict_get result ''number'' JNull)
       \<and> (map_of result ''request_number'' = None \<longrightarrow>
            submission_result
              (fst (submit_catalog_request py_str tr instance_url auth_headers params item_type s))
            = Some (parent_id result, dict_get result ''number'' JNull))"
proof -
  note eq = submit_no_rows [where tr = tr and py_str = py_str, OF assms]
  show ?thesis
    by (simp add: eq) (simp add: py_or_def dict_get_def)
qed

theorem no_rows_falls_back_to_request_witness:
  "is_request_record req1_record \<and> truthy (parent_id req1_record)
   \<and> submission_result
        (fst (submit_catalog_request example_str (remote req1_body no_rows_body)
                ''https://sn'' [] itm001 ''item'' start))
      = Some (JStr ''REQ1'', JStr ''REQ0001'')"
proof -
  have facts: "is_request_record req1_record" "truthy (parent_id req1_record)"
    by (simp_all add: is_request_record_def parent_id_def py_or_def dict_get_def req1_record_def)
  then show ?thesis
    using no_rows_falls_back_to_request [where tr = "remote req1_body no_rows_body"
        and py_str = example_str and instance_url = "''https://sn''" and auth_headers = "[]"
        and params = itm001 and item_type = "''item''" and s = start and ?w1.0 = "()"
        and payload = "[(''result'', JObj req1_record)]" and result = req1_record
        and lookup = "[(''result'', JArr [])]" and ?w2.0 = "()"]
    by (simp add: req1_body_def no_rows_body_def dict_get_def start_def req1_record_def
        parent_id_def py_or_def)
qed

subsection \<open>A direct record\<close>

text \<open>
  Claim C5: for every response in which neither \<^verbatim>\<open>table\<close> nor \<^verbatim>\<open>record\<close> carries the
  marker \<^verbatim>\<open>sc_request\<close> (both may be absent), \<^verbatim>\<open>record_id\<close> is the response's
  \<^verbatim>\<open>sys_id\<close> and \<^verbatim>\<open>record_number\<close> its \<^verbatim>\<open>number\<close>, falling back to
  \<^verbatim>\<open>request_number\<close> when \<^verbatim>\<open>number\<close> is absent (missing, null or empty, as \<^verbatim>\<open>or\<close>
  tests it); the submission is the only request issued.
\<close>

theorem direct_record_is_the_result:
  assumes "tr (submit_request instance_url (write_headers auth_headers) params item_type) (world s)
             = (Body (JObj payload), w1)"
    and "dict_get payload ''result'' (JObj []) = JObj result"
    and "dict_get result ''table'' JNull \<noteq> JStr ''sc_request''"
    and "dict_get result ''record'' JNull \<noteq> JStr ''sc_request''"
  shows "submission_result
           (fst (submit_catalog_request py_str tr instance_url auth_headers params item_type s))
         = Some (dict_get result ''sys_id'' JNull,
                 if truthy (dict_get result ''number'' JNull)
                 then dict_get result ''number'' JNull
                 else dict_get result ''request_number'' JNull)
       \<and> (map_of result ''number'' = None \<longrightarrow>
            submission_result
              (fst (submit_catalog_request py_str tr instance_url auth_headers params item_type s))
            = Some (dict_get result ''sys_id'' JNull, dict_get result ''request_number'' JNull))
       \<and> sent (snd (submit_catalog_request py_str tr instance_url auth_headers params item_type s))
         = sent s @ [submit_request instance_url (write_headers auth_headers) params item_type]"
proof -
  from assms(3,4) have "\<not> is_request_record result"
    by (simp add: is_request_record_def py_or_def)
  note eq = submit_direct [where tr = tr and py_str = py_str, OF assms(1,2) this]
  show ?thesis
    by (simp add: eq) (simp add: py_or_def dict_get_def)
qed

theorem direct_record_is_the_result_witness:
  "dict_get inc1_record ''table'' JNull \<noteq> JStr ''sc_request''
   \<and> dict_get inc1_record ''record'' JNull \<noteq> JStr ''sc_request''
   \<and> submission_result
        (fst (submit_catalog_request example_str (remote inc1_body ritm9_body)
                ''https://sn'' [] prd1 ''producer'' start))
      = Some (JStr ''INC1'', JStr ''INC0001'')
   \<and> sent (snd (submit_catalog_request example_str (remote inc1_body ritm9_body)
                ''https://sn'' [] prd1 ''producer'' start))
      = [submit_request ''https://sn'' (write_headers []) prd1 ''producer'']"
proof -
  have facts: "dict_get inc1_record ''table'' JNull \<noteq> JStr ''sc_request''"
    "dict_get inc1_record ''record'' JNull \<noteq> JStr ''sc_request''"
    by (simp_all add: dict_get_def inc1_record_def)
  then show ?thesis
    using direct_record_is_the_result [where tr = "remote inc1_body ritm9_body"
        and py_str = example_str and instance_url = "''https://sn''" and auth_headers = "[]"
        and params = prd1 and item_type = "''producer''" and s = start and ?w1.0 = "()"
        and payload = "[(''result'', JObj inc1_record)]" and result = inc1_record]
    by (simp add: inc1_body_def dict_get_def start_def inc1_record_def)
qed

subsection \<open>The request of the submission\<close>

text \<open>
  Claim C7: for every input, the body of the submission contains the key
  \<^verbatim>\<open>variables\<close> if and only if the supplied mapping is neither null nor empty; otherwise
  the key is omitted and the body is the empty dictionary. The submission is the first
  request the function issues, whatever the remote answers, and this is its body.
\<close>

theorem variables_key_iff_supplied:
  "(\<exists>rest. sent (snd (submit_catalog_request py_str tr instance_url auth_headers params item_type s))
        = sent s @ submit_request instance_url (write_headers auth_headers) params item_type # rest)
   \<and> json_body (submit_request instance_url (write_headers auth_headers) params item_type)
       = Some (submit_body params)
   \<and> ((''variables'' \<in> fst ` set (submit_body params))
        = (variables params \<noteq> None \<and> variables params \<noteq> Some []))
   \<and> submit_body params
       = (if variables params = None \<or> variables params = Some [] then []
          else [(''variables'', JObj (the (variables params)))])"
proof (intro conjI)
  show "\<exists>rest. sent (snd (submit_catalog_request py_str tr instance_url auth_headers params item_type s))
        = sent s @ submit_request instance_url (write_headers auth_headers) params item_type # rest"
    by (rule submit_sends_first)
  show "json_body (submit_request instance_url (write_headers auth_headers) params item_type)
       = Some (submit_body params)"
    by (simp add: submit_request_def)
  show "(''variables'' \<in> fst ` set (submit_body params))
        = (variables params \<noteq> None \<and> variables params \<noteq> Some [])"
    by (cases "variables params") (auto simp add: submit_body_def)
  show "submit_body params
       = (if variables params = None \<or> variables params = Some [] then []
          else [(''variables'', JObj (the (variables params)))])"
    by (cases "variables params") (simp_all add: submit_body_def)
qed

text \<open>
  Claim C10: for every \<^verbatim>\<open>item_type\<close> other than \<^verbatim>\<open>"producer"\<close> the submission goes to
  the \<^verbatim>\<open>order_now\<close> endpoint; such a value is never rejected, and the function does what
  it does for \<^verbatim>\<open>"item"\<close>: the same requests, the same result.
\<close>

theorem other_item_types_order_now:
  assumes "item_type \<noteq> ''producer''"
  shows "submit_catalog_request py_str tr instance_url auth_headers params item_type s
           = submit_catalog_request py_str tr instance_url auth_headers params ''item'' s
       \<and> (\<exists>rest. sent (snd (submit_catalog_request py_str tr instance_url auth_headers params item_type s))
              = sent s @ submit_request instance_url (write_headers auth_headers) params item_type # rest)
       \<and> verb (submit_request instance_url (write_headers auth_headers) params item_type) = POST
       \<and> url (submit_request instance_url (write_headers auth_headers) params item_type)
           = instance_url @ ''/api/sn_sc/servicecatalog/items/''
               @ SubmitCatalogRequestParams.item_id params @ ''/order_now''"
proof -
  from assms have "submit_request instance_url (write_headers auth_headers) params item_type
      = submit_request instance_url (write_headers auth_headers) params ''item''"
    by (simp add: submit_request_def submit_url_def)
  then have "submit_catalog_request py_str tr instance_url auth_headers params item_type s
           = submit_catalog_request py_str tr instance_url auth_headers params ''item'' s"
    by (simp add: submit_catalog_request_def)
  moreover have "\<exists>rest. sent (snd (submit_catalog_request py_str tr instance_url auth_headers params item_type s))
              = sent s @ submit_request instance_url (write_headers auth_headers) params item_type # rest"
    by (rule submit_sends_first)
  moreover from assms
  have "url (submit_request instance_url (write_headers auth_headers) params item_type)
           = instance_url @ ''/api/sn_sc/servicecatalog/items/''
               @ SubmitCatalogRequestParams.item_id params @ ''/order_now''"
    by (simp add: submit_request_def submit_url_def)
  ultimately show ?thesis
    by (simp add: submit_request_def)
qed

theorem other_item_types_order_now_witness:
  "''catalog'' \<noteq> ''producer''
   \<and> submit_catalog_request example_str (remote req1_body ritm9_body) ''https://sn'' [] itm001 ''catalog'' start
       = submit_catalog_request example_str (remote req1_body ritm9_body) ''https://sn'' [] itm001 ''item'' start
   \<and> url (submit_request ''https://sn'' (write_headers []) itm001 ''catalog'')
       = ''https://sn/api/sn_sc/servicecatalog/items/ITM001/order_now''"
  using other_item_types_order_now [where item_type = "''catalog''" and py_str = example_str
      and tr = "remote req1_body ritm9_body" and instance_url = "''https://sn''"
      and auth_headers = "[]" and params = itm001 and s = start]
  by (simp add: itm001_def)

section \<open>Properties of \<^verbatim>\<open>get_catalog_item\<close> and \<^verbatim>\<open>list_catalog_items\<close>\<close>

lemma remote_get [simp]:
  "remote a b (get_request instance_url hdrs params) w = (Body b, w)"
  by (simp add: remote_def get_request_def)

lemma remote_list [simp]:
  "remote a b (list_request instance_url hdrs params) w = (Body b, w)"
  by (simp add: remote_def list_request_def)

text \<open>
  Claim C9: whenever the call of \<^verbatim>\<open>get_catalog_item\<close> succeeds and the \<^verbatim>\<open>result\<close> of
  the answer is empty (the key is missing, or its value is falsy: an empty dictionary, an
  empty list, null), the outcome has \<^verbatim>\<open>success=false\<close>, the message
  \<^verbatim>\<open>Catalog item not found: \<close> followed by the requested item id, and \<^verbatim>\<open>data=null\<close>.
\<close>

theorem empty_result_is_not_found:
  assumes "tr (get_request instance_url auth_headers params) (world s) = (Body (JObj payload), w1)"
    and "\<not> truthy (dict_get payload ''result'' (JObj []))"
  shows "get_catalog_item py_str tr instance_url auth_headers params s =
      (Inr \<lparr>success = False,
            message = ''Catalog item not found: '' @ GetCatalogItemParams.item_id params,
            data = None\<rparr>,
       s\<lparr>world := w1, sent := sent s @ [get_request instance_url auth_headers params]\<rparr>)"
  using assms
  by (simp add: get_catalog_item_def call_def get_item_outcome_def)

theorem empty_result_is_not_found_witness:
  "\<not> truthy (dict_get [(''result'', JObj [])] ''result'' (JObj []))
   \<and> \<not> truthy (dict_get [] ''result'' (JObj []))
   \<and> fst (get_catalog_item example_str (remote JNull (JObj [(''result'', JObj [])])) ''https://sn'' []
             itm404 start)
      = Inr \<lparr>success = False, message = ''Catalog item not found: ITM404'', data = None\<rparr>
   \<and> fst (get_catalog_item example_str (remote JNull (JObj [])) ''https://sn'' [] itm404 start)
      = Inr \<lparr>success = False, message = ''Catalog item not found: ITM404'', data = None\<rparr>"
  using empty_result_is_not_found [where tr = "remote JNull (JObj [(''result'', JObj [])])"
      and py_str = example_str and instance_url = "''https://sn''" and auth_headers = "[]"
      and params = itm404 and s = start and ?w1.0 = "()" and payload = "[(''result'', JObj [])]"]
    empty_result_is_not_found [where tr = "remote JNull (JObj [])"
      and py_str = example_str and instance_url = "''https://sn''" and auth_headers = "[]"
      and params = itm404 and s = start and ?w1.0 = "()" and payload = "[]"]
  by (simp add: dict_get_def itm404_def start_def)

subsection \<open>The projection of the payload\<close>

lemma list_item_fields_project: "list_item_fields item = project list_fields item"
  by (simp add: list_item_fields_def project_def list_fields_def dict_get_def)

lemma get_item_fields_project: "get_item_fields item = project get_fields item"
  by (simp add: get_item_fields_def project_def get_fields_def dict_get_def)

lemma format_items_objects:
  "format_items (map JObj items) formatted = Inr (formatted @ map list_item_fields items)"
  by (induction items arbitrary: formatted) simp_all

lemma project_field:
  assumes "distinct (map fst fieldset)" and "f \<in> set fieldset"
  shows "map_of (project fieldset item) (fst f)
           = Some (case map_of item (snd f) of Some v \<Rightarrow> v | None \<Rightarrow> JStr '''')"
proof -
  have "map_of (project fieldset item) (fst f)
      = map_option (\<lambda>k. case map_of item k of Some v \<Rightarrow> v | None \<Rightarrow> JStr '''')
          (map_of fieldset (fst f))"
    by (induction fieldset) (simp_all add: project_def)
  moreover from assms have "map_of fieldset (fst f) = Some (snd f)"
    by (cases f) simp
  ultimately show ?thesis by simp
qed

lemma distinct_list_fields: "distinct (map fst list_fields)"
  by (simp add: list_fields_def)

lemma distinct_get_fields: "distinct (map fst get_fields)"
  by (simp add: get_fields_def)

lemma list_items_projected:
  assumes "tr (list_request instance_url auth_headers params) (world s) = (Body (JObj payload), w1)"
    and "dict_get payload ''result'' (JArr []) = JArr (map JObj items)"
  shows "fst (list_catalog_items py_str tr instance_url auth_headers params s) =
      Inr [(''success'', JBool True),
           (''message'', JStr (''Retrieved '' @ py_str (JInt (int (length items))) @ '' catalog items'')),
           (''items'', JArr (map (\<lambda>item. JObj (project list_fields item)) items)),
           (''total'', JInt (int (length items))),
           (''limit'', JInt (limit params)),
           (''offset'', JInt (offset params))]"
  using assms
  by (simp add: list_catalog_items_def call_def format_items_objects list_item_fields_project
      comp_def)

lemma get_item_projected:
  assumes "tr (get_request instance_url auth_headers params) (world s) = (Body (JObj payload), w1)"
    and "dict_get payload ''result'' (JObj []) = JObj item"
    and "item \<noteq> []"
  shows "fst (get_catalog_item py_str tr instance_url auth_headers params s) =
      Inr \<lparr>success = True,
           message = ''Retrieved catalog item: '' @ py_str (dict_get item ''name'' (JStr '''')),
           data = Some (project get_fields item)\<rparr>"
  using assms
  by (simp add: get_catalog_item_def call_def get_item_outcome_def get_item_fields_project)

text \<open>
  Claim C8, as stated: each projected field is the payload's value when the key is
  present and the empty string when it is missing, and no projected field is ever null.
  It fails where the payload has a key with the value null: \<^verbatim>\<open>item.get(key, "")\<close>
  returns the null, and the default is used for a missing key only.
\<close>

theorem null_field_counterexample:
  "map_of laptop_item ''price'' = Some JNull
   \<and> fst (get_catalog_item example_str (remote JNull laptop_body) ''https://sn'' [] itm001_lookup start)
     = Inr \<lparr>success = True,
            message = ''Retrieved catalog item: Laptop'',
            data = Some [(''sys_id'', JStr ''ITM001''), (''name'', JStr ''Laptop''),
                         (''short_description'', JStr ''''), (''description'', JStr ''''),
                         (''category'', JStr ''''), (''price'', JNull), (''picture'', JStr ''''),
                         (''active'', JStr ''''), (''order'', JStr ''''),
                         (''delivery_time'', JStr ''''), (''availability'', JStr ''''),
                         (''mandatory_attachment'', JStr ''''), (''variables'', JStr ''''),
                         (''ui_policies'', JStr ''''), (''client_scripts'', JStr '''')]\<rparr>"
  by (simp add: get_catalog_item_def call_def get_item_outcome_def get_item_fields_def dict_get_def
      remote_def get_request_def laptop_body_def laptop_item_def start_def)

text \<open>
  Claim C8, amended: for every payload returned to \<^verbatim>\<open>list_catalog_items\<close> (a list of
  objects) or to \<^verbatim>\<open>get_catalog_item\<close> (a non-empty object), what the operation returns is
  the projection of the payload on its fixed field set: each field is the payload's value
  when the key is present, also when that value is null, and the empty string when the
  key is missing. A projected field is null exactly when the payload has the key with the
  value null.
\<close>

theorem projection_of_payload:
  assumes "tr (list_request instance_url auth_headers lparams) (world s) = (Body (JObj payload), w1)"
    and "dict_get payload ''result'' (JArr []) = JArr (map JObj items)"
    and "tr' (get_request instance_url' auth_headers' gparams) (world s') = (Body (JObj payload'), w1')"
    and "dict_get payload' ''result'' (JObj []) = JObj item"
    and "item \<noteq> []"
  shows "(\<exists>d. fst (list_catalog_items py_str tr instance_url auth_headers lparams s) = Inr d
            \<and> map_of d ''items'' = Some (JArr (map (\<lambda>item. JObj (project list_fields item)) items)))
       \<and> (\<exists>r. fst (get_catalog_item py_str tr' instance_url' auth_headers' gparams s') = Inr r
            \<and> success r \<and> data r = Some (project get_fields item))
       \<and> (\<forall>fieldset \<in> {list_fields, get_fields}. \<forall>f \<in> set fieldset. \<forall>rec.
            map_of (project fieldset rec) (fst f)
              = Some (case map_of rec (snd f) of Some v \<Rightarrow> v | None \<Rightarrow> JStr '''')
            \<and> ((map_of (project fieldset rec) (fst f) = Some JNull) = (map_of rec (snd f) = Some JNull)))"
proof (intro conjI ballI allI)
  show "\<exists>d. fst (list_catalog_items py_str tr instance_url auth_headers lparams s) = Inr d
            \<and> map_of d ''items'' = Some (JArr (map (\<lambda>item. JObj (project list_fields item)) items))"
    by (simp add: list_items_projected [where tr = tr, OF assms(1,2)])
  show "\<exists>r. fst (get_catalog_item py_str tr' instance_url' auth_headers' gparams s') = Inr r
            \<and> success r \<and> data r = Some (project get_fields item)"
    by (simp add: get_item_projected [where tr = tr', OF assms(3,4,5)])
next
  fix fieldset f rec
  assume "fieldset \<in> {list_fields, get_fields}" and f: "f \<in> set fieldset"
  then have "distinct (map fst fieldset)"
    using distinct_list_fields distinct_get_fields by auto
  from project_field [OF this f]
  show "map_of (project fieldset rec) (fst f)
          = Some (case map_of rec (snd f) of Some v \<Rightarrow> v | None \<Rightarrow> JStr '''')" .
  then show "(map_of (project fieldset rec) (fst f) = Some JNull) = (map_of rec (snd f) = Some JNull)"
    by (simp split: option.splits)
qed

theorem projection_of_payload_witness:
  "laptop_item \<noteq> []
   \<and> (\<exists>d. fst (list_catalog_items example_str (remote JNull laptops_body) ''https://sn'' []
                 first_page start) = Inr d
          \<and> map_of d ''items'' = Some (JArr [JObj (project list_fields laptop_item)]))
   \<and> (\<exists>r. fst (get_catalog_item example_str (remote JNull laptop_body) ''https://sn'' []
                 itm001_lookup start) = Inr r
          \<and> success r \<and> data r = Some (project get_fields laptop_item))
   \<and> (''name'', ''name'') \<in> set list_fields
   \<and> map_of (project list_fields laptop_item) ''name'' = Some (JStr ''Laptop'')
   \<and> (''ui_policies'', ''ui_policy'') \<in> set get_fields
   \<and> map_of (project get_fields laptop_item) ''ui_policies'' = Some (JStr '''')"
proof -
  have ne: "laptop_item \<noteq> []"
    by (simp add: laptop_item_def)
  have mem: "(''name'', ''name'') \<in> set list_fields" "(''ui_policies'', ''ui_policy'') \<in> set get_fields"
    by (simp_all add: list_fields_def get_fields_def)
  note inst = projection_of_payload [where tr = "remote JNull laptops_body" and py_str = example_str
      and instance_url = "''https://sn''" and auth_headers = "[]" and lparams = first_page
      and s = start and ?w1.0 = "()" and payload = "[(''result'', JArr (map JObj [laptop_item]))]"
      and items = "[laptop_item]"
      and tr' = "remote JNull laptop_body" and instance_url' = "''https://sn''"
      and auth_headers' = "[]" and gparams = itm001_lookup and s' = start and w1' = "()"
      and payload' = "[(''result'', JObj laptop_item)]" and item = laptop_item]
  have p1: "remote JNull laptops_body (list_request ''https://sn'' [] first_page) (world start)
      = (Body (JObj [(''result'', JArr (map JObj [laptop_item]))]), ())"
    by (simp add: laptops_body_def)
  have p2: "dict_get [(''result'', JArr (map JObj [laptop_item]))] ''result'' (JArr [])
      = JArr (map JObj [laptop_item])"
    by (simp add: dict_get_def)
  have p3: "remote JNull laptop_body (get_request ''https://sn'' [] itm001_lookup) (world start)
      = (Body (JObj [(''result'', JObj laptop_item)]), ())"
    by (simp add: laptop_body_def)
  have p4: "dict_get [(''result'', JObj laptop_item)] ''result'' (JObj []) = JObj laptop_item"
    by (simp add: dict_get_def)
  note all = inst [OF p1 p2 p3 p4 ne]
  from all have lst: "\<exists>d. fst (list_catalog_items example_str (remote JNull laptops_body) ''https://sn'' []
                 first_page start) = Inr d
          \<and> map_of d ''items'' = Some (JArr [JObj (project list_fields laptop_item)])"
    by simp
  from all have get: "\<exists>r. fst (get_catalog_item example_str (remote JNull laptop_body) ''https://sn'' []
                 itm001_lookup start) = Inr r
          \<and> success r \<and> data r = Some (project get_fields laptop_item)"
    by blast
  from all have fld: "\<forall>fieldset \<in> {list_fields, get_fields}. \<forall>f \<in> set fieldset. \<forall>rec.
            map_of (project fieldset rec) (fst f)
              = Some (case map_of rec (snd f) of Some v \<Rightarrow> v | None \<Rightarrow> JStr '''')"
    by blast
  from fld mem(1) have "map_of (project list_fields laptop_item) (fst (''name'', ''name''))
      = Some (case map_of laptop_item (snd (''name'', ''name'')) of Some v \<Rightarrow> v | None \<Rightarrow> JStr '''')"
    by blast
  then have n: "map_of (project list_fields laptop_item) ''name'' = Some (JStr ''Laptop'')"
    by (simp add: laptop_item_def)
  from fld mem(2) have "map_of (project get_fields laptop_item) (fst (''ui_policies'', ''ui_policy''))
      = Some (case map_of laptop_item (snd (''ui_policies'', ''ui_policy'')) of Some v \<Rightarrow> v | None \<Rightarrow> JStr '''')"
    by blast
  then have u: "map_of (project get_fields laptop_item) ''ui_policies'' = Some (JStr '''')"
    by (simp add: laptop_item_def)
  from lst get ne mem n u show ?thesis by blast
qed

section \<open>Properties of \<^verbatim>\<open>move_catalog_items\<close>\<close>

lemma length_failures: "length (failures ids rs) \<le> length ids"
  by (induction ids rs rule: failures.induct) simp_all

lemma move_loop_counts:
  "fst (move_loop tr base hdrs target ids (c, f) s) =
     (c + int (length ids)
        - int (length (failures ids (answers tr (map (move_request base hdrs target) ids) (world s)))),
      f @ map (\<lambda>p. failed_item (fst p) (snd p))
            (failures ids (answers tr (map (move_request base hdrs target) ids) (world s))))"
proof (induction ids arbitrary: c f s)
  case Nil
  show ?case by simp
next
  case (Cons iid ids)
  obtain resp w' where step: "tr (move_request base hdrs target iid) (world s) = (resp, w')"
    by (cases "tr (move_request base hdrs target iid) (world s)")
  show ?case
  proof (cases resp)
    case (TransportError e)
    with step Cons.IH [of c "f @ [failed_item iid e]" "s\<lparr>world := w', sent := sent s @ [move_request base hdrs target iid]\<rparr>"]
    show ?thesis by (simp add: call_def)
  next
    case (BadBody e)
    with step Cons.IH [of "c + 1" f "s\<lparr>world := w', sent := sent s @ [move_request base hdrs target iid]\<rparr>"]
    show ?thesis by (simp add: call_def)
  next
    case (Body j)
    with step Cons.IH [of "c + 1" f "s\<lparr>world := w', sent := sent s @ [move_request base hdrs target iid]\<rparr>"]
    show ?thesis by (simp add: call_def)
  qed
qed

lemma move_loop_from_zero:
  "fst (move_loop tr (instance_url @ ''/api/now/table/sc_cat_item'') (write_headers auth_headers)
          (target_category_id params) (item_ids params) (0, []) s) =
     (int (length (item_ids params))
        - int (length (failures (item_ids params)
                 (answers tr (move_requests instance_url auth_headers params) (world s)))),
      map (\<lambda>p. failed_item (fst p) (snd p))
        (failures (item_ids params)
           (answers tr (move_requests instance_url auth_headers params) (world s))))"
  by (simp add: move_loop_counts move_requests_def)

text \<open>
  Claim C6, as stated: \<^verbatim>\<open>N\<close> item ids of which the transport fails for exactly \<^verbatim>\<open>k\<close>;
  if \<^verbatim>\<open>k = N\<close> the outcome has \<^verbatim>\<open>success=false\<close>. It fails for the empty list of item
  ids, where \<^verbatim>\<open>k = N = 0\<close>: line 538 compares \<^verbatim>\<open>success_count\<close> with the length of
  the list first, and the outcome is the full success.
\<close>

theorem move_nothing_counterexample:
  "length (item_ids move_none) = 0
   \<and> length (failures (item_ids move_none)
               (answers every_other (move_requests ''https://sn'' [] move_none) (world fresh))) = 0
   \<and> fst (move_catalog_items example_str every_other ''https://sn'' [] move_none fresh)
     = \<lparr>success = True,
        message = ''Successfully moved 0 catalog items to category CAT1'',
        data = Some [(''moved_items_count'', JInt 0)]\<rparr>"
  by (simp add: move_catalog_items_def move_none_def move_requests_def decimal.simps)

text \<open>
  Claim C6, amended: for every list of \<^verbatim>\<open>N\<close> item ids where the transport fails for
  exactly \<^verbatim>\<open>k\<close> of them: if \<^verbatim>\<open>k < N\<close> the outcome has \<^verbatim>\<open>success=true\<close> with
  \<^verbatim>\<open>moved_items_count = N - k\<close> and, when \<^verbatim>\<open>k > 0\<close>, \<^verbatim>\<open>failed_items\<close> lists exactly the
  \<^verbatim>\<open>k\<close> failing ids, each with its error text, in the order of the calls; if \<^verbatim>\<open>k = N\<close>
  and \<^verbatim>\<open>N > 0\<close> the outcome has \<^verbatim>\<open>success=false\<close> (and \<^verbatim>\<open>failed_items\<close> lists all ids);
  for the empty list the outcome has \<^verbatim>\<open>success=true\<close> with \<^verbatim>\<open>moved_items_count = 0\<close>.
\<close>

theorem move_outcome_by_failures:
  assumes fl: "fl = failures (item_ids params)
                      (answers tr (move_requests instance_url auth_headers params) (world s))"
    and k: "k = length fl"
    and N: "N = length (item_ids params)"
    and out: "out = fst (move_catalog_items py_str tr instance_url auth_headers params s)"
  shows "(k < N \<longrightarrow>
            success out
          \<and> (\<exists>d. data out = Some d
               \<and> map_of d ''moved_items_count'' = Some (JInt (int (N - k)))
               \<and> (0 < k \<longrightarrow> map_of d ''failed_items''
                      = Some (JArr (map (\<lambda>p. failed_item (fst p) (snd p)) fl)))))
       \<and> (k = N \<and> 0 < N \<longrightarrow>
            \<not> success out
          \<and> data out = Some [(''failed_items'', JArr (map (\<lambda>p. failed_item (fst p) (snd p)) fl))])
       \<and> (N = 0 \<longrightarrow> success out \<and> data out = Some [(''moved_items_count'', JInt 0)])"
proof -
  have le: "k \<le> N"
    unfolding k N fl by (rule length_failures)
  obtain c f s' where loop: "move_loop tr (instance_url @ ''/api/now/table/sc_cat_item'')
      (write_headers auth_headers) (target_category_id params) (item_ids params) (0, []) s = ((c, f), s')"
    by (metis surj_pair)
  from move_loop_from_zero [of tr instance_url auth_headers params s] loop
  have c: "c = int N - int k" and f: "f = map (\<lambda>p. failed_item (fst p) (snd p)) fl"
    by (simp_all add: fl k N)
  have res: "out =
      (if c = int N then
         \<lparr>success = True,
          message = ''Successfully moved '' @ py_str (JInt c)
                      @ '' catalog items to category '' @ target_category_id params,
          data = Some [(''moved_items_count'', JInt c)]\<rparr>
       else if c > 0 then
         \<lparr>success = True,
          message = ''Partially moved catalog items. '' @ py_str (JInt c)
                      @ '' succeeded, '' @ py_str (JInt (int (length f))) @ '' failed.'',
          data = Some [(''moved_items_count'', JInt c), (''failed_items'', JArr f)]\<rparr>
       else
         \<lparr>success = False,
          message = ''Failed to move any catalog items'',
          data = Some [(''failed_items'', JArr f)]\<rparr>)"
    by (simp add: out move_catalog_items_def loop N)
  from le have nk: "int (N - k) = int N - int k"
    by simp
  show ?thesis
  proof (intro conjI impI)
    assume "k < N"
    then show "success out" by (simp add: res c)
    from \<open>k < N\<close> show "\<exists>d. data out = Some d
               \<and> map_of d ''moved_items_count'' = Some (JInt (int (N - k)))
               \<and> (0 < k \<longrightarrow> map_of d ''failed_items''
                      = Some (JArr (map (\<lambda>p. failed_item (fst p) (snd p)) fl)))"
      by (simp add: res c f nk)
  next
    assume "k = N \<and> 0 < N"
    then show "\<not> success out" by (simp add: res c)
    from \<open>k = N \<and> 0 < N\<close>
    show "data out = Some [(''failed_items'', JArr (map (\<lambda>p. failed_item (fst p) (snd p)) fl))]"
      by (simp add: res c f)
  next
    assume "N = 0"
    with le have "k = 0" by simp
    with \<open>N = 0\<close> show "success out" by (simp add: res c)
    from \<open>N = 0\<close> \<open>k = 0\<close> show "data out = Some [(''moved_items_count'', JInt 0)]"
      by (simp add: res c)
  qed
qed

theorem move_outcome_by_failures_witness:
  "failures (item_ids move_three)
      (answers every_other (move_requests ''https://sn'' [] move_three) (world fresh))
     = [(''b'', ''503 Server Error'')]
   \<and> length (item_ids move_three) = 3
   \<and> success (fst (move_catalog_items example_str every_other ''https://sn'' [] move_three fresh))
   \<and> data (fst (move_catalog_items example_str every_other ''https://sn'' [] move_three fresh))
       = Some [(''moved_items_count'', JInt 2),
               (''failed_items'', JArr [JObj [(''item_id'', JStr ''b''), (''error'', JStr ''503 Server Error'')]])]"
proof -
  have fl: "failures (item_ids move_three)
      (answers every_other (move_requests ''https://sn'' [] move_three) (world fresh))
     = [(''b'', ''503 Server Error'')]"
    by (simp add: move_three_def move_requests_def every_other_def fresh_def)
  have N: "length (item_ids move_three) = 3"
    by (simp add: move_three_def)
  from move_outcome_by_failures [where tr = every_other and py_str = example_str
      and instance_url = "''https://sn''" and auth_headers = "[]" and params = move_three
      and s = fresh and fl = "[(''b'', ''503 Server Error'')]" and k = 1 and N = 3
      and out = "fst (move_catalog_items example_str every_other ''https://sn'' [] move_three fresh)"]
    fl N
  have "success (fst (move_catalog_items example_str every_other ''https://sn'' [] move_three fresh))
    \<and> (\<exists>d. data (fst (move_catalog_items example_str every_other ''https://sn'' [] move_three fresh)) = Some d
          \<and> map_of d ''moved_items_count'' = Some (JInt 2)
          \<and> map_of d ''failed_items'' = Some (JArr [failed_item ''b'' ''503 Server Error'']))"
    by simp
  moreover
  have "data (fst (move_catalog_items example_str every_other ''https://sn'' [] move_three fresh))
       = Some [(''moved_items_count'', JInt 2),
               (''failed_items'', JArr [JObj [(''item_id'', JStr ''b''), (''error'', JStr ''503 Server Error'')]])]"
    by (simp add: move_catalog_items_def move_three_def call_def every_other_def fresh_def
        failed_item_def)
  ultimately show ?thesis using fl N by simp
qed

end
